theory Spec2Isabelle
  imports Main
begin

section \<open>JavaScript values and errors\<close>

text \<open>
  The values that flow through \<^verbatim>\<open>src/pages/index.tsx\<close>: \<^verbatim>\<open>previewData\<close>, the parsed
  snapshot document and the parsed reply of the save endpoint are JSON values, or
  \<^verbatim>\<open>undefined\<close>. A number is kept as the text that JavaScript's number-to-string
  conversion gives for it; the page never computes with numbers.
\<close>

datatype js =
    JUndefined
  | JNull
  | JBool bool
  | JNumber string
  | JString string
  | JArray "js list"
  | JObject "(string \<times> js) list"

text \<open>
  What the page can catch: the built-in \<^verbatim>\<open>TypeError\<close> and \<^verbatim>\<open>SyntaxError\<close>, an error of
  the AWS SDK (which may carry a numeric \<^verbatim>\<open>statusCode\<close>), and \<^verbatim>\<open>new Error(text)\<close>.
\<close>

datatype js_error =
    TypeError
  | SyntaxError
  | AWSError "nat option"
  | Error string

text \<open>\<^verbatim>\<open>e.statusCode\<close>: only the SDK's errors have the property; elsewhere it is undefined.\<close>

fun statusCode :: "js_error \<Rightarrow> nat option" where
  "statusCode (AWSError c) = c"
| "statusCode TypeError = None"
| "statusCode SyntaxError = None"
| "statusCode (Error m) = None"

text \<open>\<^verbatim>\<open>Array.prototype.join(",")\<close> on strings already converted.\<close>

fun join_comma :: "string list \<Rightarrow> string" where
  "join_comma [] = []"
| "join_comma [x] = x"
| "join_comma (x # y # ys) = x @ '','' @ join_comma (y # ys)"

text \<open>The conversions of an array's entries, in order: the first one that throws decides.\<close>

fun all_strings :: "(js_error + string) list \<Rightarrow> js_error + string list" where
  "all_strings [] = Inr []"
| "all_strings (Inl e # rs) = Inl e"
| "all_strings (Inr x # rs) = (case all_strings rs of Inl e \<Rightarrow> Inl e | Inr xs \<Rightarrow> Inr (x # xs))"

text \<open>
  The string conversion a template literal applies to \<^verbatim>\<open>${snapshotId}\<close>. An array is
  joined with commas, its \<^verbatim>\<open>null\<close> and \<^verbatim>\<open>undefined\<close> entries giving the empty string.
  An object is converted through its \<^verbatim>\<open>toString\<close>: without an own key of that name this
  is \<^verbatim>\<open>Object.prototype.toString\<close>, which gives \<^verbatim>\<open>[object Object]\<close>; with one, the value
  there is a JSON value and cannot be called, \<^verbatim>\<open>valueOf\<close> gives no primitive either, and
  the conversion throws a \<^verbatim>\<open>TypeError\<close>. So does the conversion of an array that holds
  such an object.
\<close>

fun ToString :: "js \<Rightarrow> js_error + string" where
  "ToString JUndefined = Inr ''undefined''"
| "ToString JNull = Inr ''null''"
| "ToString (JBool b) = Inr (if b then ''true'' else ''false'')"
| "ToString (JNumber n) = Inr n"
| "ToString (JString s) = Inr s"
| "ToString (JArray xs) =
     (case all_strings (map (\<lambda>x. if x = JUndefined \<or> x = JNull then Inr [] else ToString x) xs) of
        Inl e \<Rightarrow> Inl e
      | Inr strs \<Rightarrow> Inr (join_comma strs))"
| "ToString (JObject kvs) =
     (if map_of kvs ''toString'' \<noteq> None then Inl TypeError else Inr ''[object Object]'')"

text \<open>
  The destructuring pattern \<^verbatim>\<open>{ snapshotId }\<close>, used on \<^verbatim>\<open>previewData\<close> and on the
  reply of the save endpoint. Destructuring \<^verbatim>\<open>undefined\<close> or \<^verbatim>\<open>null\<close> throws a
  \<^verbatim>\<open>TypeError\<close>; an object gives the property or \<^verbatim>\<open>undefined\<close>; strings, numbers,
  booleans and arrays have no property of that name.
\<close>

fun destructure_snapshotId :: "js \<Rightarrow> js_error + js" where
  "destructure_snapshotId JUndefined = Inl TypeError"
| "destructure_snapshotId JNull = Inl TypeError"
| "destructure_snapshotId (JObject kvs) =
     (case map_of kvs ''snapshotId'' of None \<Rightarrow> Inr JUndefined | Some v \<Rightarrow> Inr v)"
| "destructure_snapshotId v = Inr JUndefined"

section \<open>The preview resolver: \<^verbatim>\<open>getStaticProps\<close>\<close>

text \<open>
  The S3 client is the module-level \<^verbatim>\<open>s3\<close>; here it is what \<^verbatim>\<open>getObject(...).promise()\<close>
  settles to for a request: a rejection or an output whose \<^verbatim>\<open>Body\<close> may be missing.
\<close>

record GetObjectRequest =
  Bucket :: "string option"
  Key :: string

record GetObjectOutput =
  Body :: "string option"

type_synonym s3_client = "GetObjectRequest \<Rightarrow> js_error + GetObjectOutput"

text \<open>The argument of \<^verbatim>\<open>getStaticProps\<close>; \<^verbatim>\<open>preview\<close> is an optional boolean.\<close>

record GetStaticPropsContext =
  preview :: "bool option"
  previewData :: js

text \<open>
  The \<^verbatim>\<open>props\<close> object of the result. The three object literals of the source have
  different keys, so every key but \<^verbatim>\<open>isPreview\<close> is optional: \<open>None\<close> is an absent key.
\<close>

record props =
  isPreview :: bool
  snapshotId :: "js option"
  contents :: "js option"
  hasError :: "bool option"
  message :: "string option"

text \<open>
  The body of the \<^verbatim>\<open>try\<close> block, from the identifier: the template literal for the
  key, the store read, \<^verbatim>\<open>object.Body.toString()\<close> and \<^verbatim>\<open>JSON.parse\<close>, with the requests
  sent to the store. When the template literal throws, \<^verbatim>\<open>getObject\<close> is not called.
  \<^verbatim>\<open>JSON.parse\<close> is the platform's and is a parameter: \<open>None\<close> is its \<^verbatim>\<open>SyntaxError\<close>;
  \<^verbatim>\<open>process.env.AWS_S3_BUCKET\<close> is a parameter too.
\<close>

definition try_block ::
  "s3_client \<Rightarrow> string option \<Rightarrow> (string \<Rightarrow> js option) \<Rightarrow> js
     \<Rightarrow> (js_error + js) \<times> GetObjectRequest list" where
  "try_block s3 AWS_S3_BUCKET JSON_parse sid =
     (case ToString sid of
        Inl e \<Rightarrow> (Inl e, [])
      | Inr name \<Rightarrow>
          (let req = \<lparr>Bucket = AWS_S3_BUCKET, Key = name @ ''.json''\<rparr> in
           (case s3 req of
              Inl e \<Rightarrow> (Inl e, [req])
            | Inr object \<Rightarrow>
                (case Body object of
                   None \<Rightarrow> (Inl TypeError, [req])
                 | Some str \<Rightarrow>
                     (case JSON_parse str of
                        None \<Rightarrow> (Inl SyntaxError, [req])
                      | Some parsed \<Rightarrow> (Inr parsed, [req]))))))"

text \<open>
  \<^verbatim>\<open>getStaticProps\<close>. The result is what the returned promise settles to (\<open>Inl\<close>: it
  rejects, the error reaches the caller; \<open>Inr\<close>: the \<^verbatim>\<open>props\<close>) together with the
  requests sent to the store, in order. The destructuring of \<^verbatim>\<open>previewData\<close> stands
  before the \<^verbatim>\<open>try\<close>; the \<^verbatim>\<open>catch\<close> turns every error of the \<^verbatim>\<open>try\<close> block into props.
\<close>

definition getStaticProps ::
  "s3_client \<Rightarrow> string option \<Rightarrow> (string \<Rightarrow> js option) \<Rightarrow> GetStaticPropsContext
     \<Rightarrow> (js_error + props) \<times> GetObjectRequest list" where
  "getStaticProps s3 AWS_S3_BUCKET JSON_parse ctx =
     (if preview ctx = Some True then
        (case destructure_snapshotId (previewData ctx) of
           Inl e \<Rightarrow> (Inl e, [])
         | Inr sid \<Rightarrow>
             (case try_block s3 AWS_S3_BUCKET JSON_parse sid of
                (Inr parsed, reqs) \<Rightarrow>
                  (Inr \<lparr>isPreview = True, snapshotId = Some sid, contents = Some parsed,
                        hasError = None, message = None\<rparr>, reqs)
              | (Inl e, reqs) \<Rightarrow>
                  (Inr \<lparr>isPreview = False, snapshotId = None, contents = None,
                        hasError = Some True,
                        message = Some
                          (if statusCode e = Some 403
                           then ''The requested preview edit does not exist!''
                           else ''An error has occurred while connecting to S3. Please refresh the page to try again.'')\<rparr>,
                   reqs)))
      else
        (Inr \<lparr>isPreview = False, snapshotId = None, contents = None,
              hasError = None, message = None\<rparr>, []))"

section \<open>Field edits and the snapshot store\<close>

text \<open>
  A \<^verbatim>\<open>FieldEdit\<close> as \<^verbatim>\<open>share\<close> builds it, the object literal \<^verbatim>\<open>{ id, innerText }\<close>, and
  the array of them as a JSON value (the argument of \<^verbatim>\<open>JSON.stringify\<close>).
\<close>

record FieldEdit =
  fe_id :: string
  fe_innerText :: string

definition json_of_edit :: "FieldEdit \<Rightarrow> js" where
  "json_of_edit f = JObject [(''id'', JString (fe_id f)), (''innerText'', JString (fe_innerText f))]"

definition json_of_edits :: "FieldEdit list \<Rightarrow> js" where
  "json_of_edits fs = JArray (map json_of_edit fs)"

text \<open>
  The page hands \<^verbatim>\<open>props.contents\<close> on as a \<^verbatim>\<open>FieldEdit[]\<close>. Read as such, a JSON
  document gives these pairs of id and text: the entries that are objects with a string
  \<^verbatim>\<open>id\<close> and a string \<^verbatim>\<open>innerText\<close>.
\<close>

fun edit_pair :: "js \<Rightarrow> (string \<times> string) option" where
  "edit_pair (JObject kvs) =
     (case (map_of kvs ''id'', map_of kvs ''innerText'') of
        (Some (JString i), Some (JString t)) \<Rightarrow> Some (i, t)
      | _ \<Rightarrow> None)"
| "edit_pair v = None"

fun edit_pairs :: "js \<Rightarrow> (string \<times> string) set" where
  "edit_pairs (JArray xs) = set (List.map_filter edit_pair xs)"
| "edit_pairs v = {}"

text \<open>
  Modelled from the spec: the Snapshot Store (the bucket is not among the sources). It is
  key-addressed and holds one JSON document per key.
\<close>

type_synonym snapshot_store = "string \<rightharpoonup> string"

text \<open>
  Modelled from the spec: the store read \<^verbatim>\<open>GET <bucket>/<snapshotId>.json\<close> (the S3
  service is not among the sources). A key that holds nothing surfaces as a 403, as
  access denial does; a request that names no bucket is refused before it is sent.
\<close>

definition store_client :: "string \<Rightarrow> snapshot_store \<Rightarrow> s3_client" where
  "store_client bucket objects req =
     (if Bucket req = Some bucket then
        (case objects (Key req) of
           None \<Rightarrow> Inl (AWSError (Some 403))
         | Some doc \<Rightarrow> Inr \<lparr>Body = Some doc\<rparr>)
      else if Bucket req = None then Inl (AWSError None)
      else Inl (AWSError (Some 403)))"

datatype StorageWriteError = StorageWriteError string

text \<open>
  Modelled from the spec: the Snapshot Service's \<open>save\<close> (the endpoint \<^verbatim>\<open>/api/save\<close> is
  not among the sources). It serialises the edits, writes them under the key
  \<^verbatim>\<open>"<id>.json"\<close> for a freshly generated identifier (here an argument) and returns the
  identifier; a failed write, whatever its cause, is a \<open>StorageWriteError\<close> carrying
  the cause, and nothing is stored.
\<close>

definition save ::
  "(js \<Rightarrow> string) \<Rightarrow> string \<Rightarrow> string option \<Rightarrow> FieldEdit list \<Rightarrow> snapshot_store
     \<Rightarrow> StorageWriteError + string \<times> snapshot_store" where
  "save JSON_stringify fresh_id write_failure edits objects =
     (case write_failure of
        Some cause \<Rightarrow> Inl (StorageWriteError cause)
      | None \<Rightarrow>
          Inr (fresh_id, objects(fresh_id @ ''.json'' \<mapsto> JSON_stringify (json_of_edits edits))))"

section \<open>The edit collector inside \<^verbatim>\<open>share\<close>\<close>

text \<open>
  The rendered document as \<^verbatim>\<open>share\<close> reads it: an element has attributes, the
  \<^verbatim>\<open>innerText\<close> the browser reports for it, and child elements.
\<close>

datatype element =
  Element (attributes: "(string \<times> string) list") (innerText: string) (children: "element list")

definition hasAttribute :: "string \<Rightarrow> element \<Rightarrow> bool" where
  "hasAttribute name e = (map_of (attributes e) name \<noteq> None)"

text \<open>The \<^verbatim>\<open>id\<close> property reflects the attribute; it is the empty string without one.\<close>

definition element_id :: "element \<Rightarrow> string" where
  "element_id e = (case map_of (attributes e) ''id'' of None \<Rightarrow> [] | Some v \<Rightarrow> v)"

text \<open>The attribute selector \<^verbatim>\<open>[contenteditable=true]\<close>.\<close>

definition editable :: "element \<Rightarrow> bool" where
  "editable e = (map_of (attributes e) ''contenteditable'' = Some ''true'')"

text \<open>
  \<^verbatim>\<open>document.querySelectorAll('[id] > [contenteditable=true]')\<close> below an element: the
  elements matching \<^verbatim>\<open>[contenteditable=true]\<close> whose parent element matches \<^verbatim>\<open>[id]\<close>, in
  document order. Each comes with its \<^verbatim>\<open>parentNode\<close>, which \<^verbatim>\<open>share\<close> reads next. The
  root element has no parent element and is never selected.
\<close>

fun select_below :: "element \<Rightarrow> (element \<times> element) list" where
  "select_below (Element as t cs) =
     concat (map (\<lambda>c. (if hasAttribute ''id'' (Element as t cs) \<and> editable c
                        then [(Element as t cs, c)] else [])
                       @ select_below c) cs)"

definition querySelectorAll :: "element \<Rightarrow> (element \<times> element) list" where
  "querySelectorAll document = select_below document"

text \<open>
  \<^verbatim>\<open>persistContents\<close>: the map
  \<^verbatim>\<open>({ parentNode: { id }, innerText }) => ({ id, innerText })\<close> over the selection.
\<close>

definition persistContents :: "element \<Rightarrow> FieldEdit list" where
  "persistContents document =
     map (\<lambda>(parentNode, el). \<lparr>fe_id = element_id parentNode, fe_innerText = innerText el\<rparr>)
       (querySelectorAll document)"

text \<open>
  The collector in the words of the specification, for comparison: every element marked
  editable gives one edit, whose id is the id of its nearest ancestor that has one and
  whose text is the element's text. The specification does not say what an editable
  element without any identified ancestor gives; here it gives nothing.
\<close>

fun spec_collect_below :: "string option \<Rightarrow> element \<Rightarrow> FieldEdit list" where
  "spec_collect_below nearest (Element as t cs) =
     concat (map (\<lambda>c.
        (if editable c then
           (case (case map_of as ''id'' of Some i \<Rightarrow> Some i | None \<Rightarrow> nearest) of
              Some i \<Rightarrow> [\<lparr>fe_id = i, fe_innerText = innerText c\<rparr>]
            | None \<Rightarrow> [])
         else [])
        @ spec_collect_below (case map_of as ''id'' of Some i \<Rightarrow> Some i | None \<Rightarrow> nearest) c) cs)"

definition spec_collect :: "element \<Rightarrow> FieldEdit list" where
  "spec_collect document = spec_collect_below None document"

text \<open>All elements of a document, and all pairs of a parent and a child, in document order.\<close>

fun elements :: "element \<Rightarrow> element list" where
  "elements (Element as t cs) = Element as t cs # concat (map elements cs)"

fun parent_child :: "element \<Rightarrow> (element \<times> element) list" where
  "parent_child (Element as t cs) =
     concat (map (\<lambda>c. (Element as t cs, c) # parent_child c) cs)"

text \<open>Every editable element is the child of an element that has an id.\<close>

definition editable_under_id :: "element \<Rightarrow> bool" where
  "editable_under_id document =
     list_all (\<lambda>(p, c). editable c \<longrightarrow> hasAttribute ''id'' p) (parent_child document)"

section \<open>The page component \<^verbatim>\<open>Home\<close>: state, \<^verbatim>\<open>share\<close> and its promise chain\<close>

text \<open>What \<^verbatim>\<open>share\<close> does to the outside: a query of the document, a \<^verbatim>\<open>fetch\<close>.\<close>

record RequestInit =
  http_method :: string
  body :: string
  headers :: "(string \<times> string) list"

datatype effect =
    QuerySelectorAll string
  | Fetch string RequestInit

fun is_fetch :: "effect \<Rightarrow> bool" where
  "is_fetch (Fetch u i) = True"
| "is_fetch (QuerySelectorAll q) = False"

text \<open>
  The hooks of \<^verbatim>\<open>Home\<close>: \<^verbatim>\<open>hasSaveRequest\<close> is the ref's \<^verbatim>\<open>current\<close>, the others are
  the \<^verbatim>\<open>useState\<close> values. \<open>effects\<close> records, in order, what the component has done to
  the outside.
\<close>

record Home =
  currentSnapshotId :: js
  isEdit :: bool
  hasSaveRequest :: bool
  isSharingView :: bool
  currentError :: "js_error option"
  effects :: "effect list"

definition initial :: Home where
  "initial = \<lparr>currentSnapshotId = JNull, isEdit = False, hasSaveRequest = False,
              isSharingView = False, currentError = None, effects = []\<rparr>"

definition setSnapshotId :: "js \<Rightarrow> Home \<Rightarrow> Home" where
  "setSnapshotId v s = s\<lparr>currentSnapshotId := v\<rparr>"

definition setSharing :: "bool \<Rightarrow> Home \<Rightarrow> Home" where
  "setSharing sharing s = s\<lparr>hasSaveRequest := sharing, isSharingView := sharing\<rparr>"

definition setError :: "js_error option \<Rightarrow> Home \<Rightarrow> Home" where
  "setError err s = s\<lparr>currentError := err\<rparr>"

text \<open>
  The synchronous part of \<^verbatim>\<open>share\<close>, up to the call of \<^verbatim>\<open>fetch\<close>. \<^verbatim>\<open>JSON.stringify\<close> is
  the platform's and is a parameter.
\<close>

definition share :: "(js \<Rightarrow> string) \<Rightarrow> element \<Rightarrow> Home \<Rightarrow> Home" where
  "share JSON_stringify document s =
     (if hasSaveRequest s then s
      else
        (let s1 = setSharing True s;
             s2 = s1\<lparr>effects := effects s1 @ [QuerySelectorAll ''[id] > [contenteditable=true]'']\<rparr>
         in s2\<lparr>effects := effects s2 @
              [Fetch ''/api/save''
                 \<lparr>http_method = ''POST'',
                  body = JSON_stringify (json_of_edits (persistContents document)),
                  headers = [(''content-type'', ''application/json'')]\<rparr>]\<rparr>))"

text \<open>
  A promise is fulfilled, rejected, or never settles. The callbacks of a chain run with
  the component's state, so a promise is paired with that state.
\<close>

datatype 'a promise = Fulfilled 'a | Rejected js_error | Pending

fun then_cb :: "('a \<Rightarrow> 's \<Rightarrow> 'b promise \<times> 's) \<Rightarrow> 'a promise \<times> 's \<Rightarrow> 'b promise \<times> 's" where
  "then_cb f (Fulfilled v, s) = f v s"
| "then_cb f (Rejected e, s) = (Rejected e, s)"
| "then_cb f (Pending, s) = (Pending, s)"

fun catch_cb :: "(js_error \<Rightarrow> 's \<Rightarrow> 'a promise \<times> 's) \<Rightarrow> 'a promise \<times> 's \<Rightarrow> 'a promise \<times> 's" where
  "catch_cb f (Fulfilled v, s) = (Fulfilled v, s)"
| "catch_cb f (Rejected e, s) = f e s"
| "catch_cb f (Pending, s) = (Pending, s)"

fun finally_cb :: "('s \<Rightarrow> 's) \<Rightarrow> 'a promise \<times> 's \<Rightarrow> 'a promise \<times> 's" where
  "finally_cb f (Fulfilled v, s) = (Fulfilled v, f s)"
| "finally_cb f (Rejected e, s) = (Rejected e, f s)"
| "finally_cb f (Pending, s) = (Pending, s)"

text \<open>
  The reply of \<^verbatim>\<open>fetch\<close>: \<^verbatim>\<open>res.ok\<close>, and what reading the body settles to: its text, or
  a rejection when the body cannot be read.
\<close>

record Response =
  ok :: bool
  body_text :: "string promise"

definition res_text :: "Response \<Rightarrow> string promise" where
  "res_text res = body_text res"

definition res_json :: "(string \<Rightarrow> js option) \<Rightarrow> Response \<Rightarrow> js promise" where
  "res_json JSON_parse res =
     (case body_text res of
        Fulfilled str \<Rightarrow> (case JSON_parse str of None \<Rightarrow> Rejected SyntaxError | Some v \<Rightarrow> Fulfilled v)
      | Rejected e \<Rightarrow> Rejected e
      | Pending \<Rightarrow> Pending)"

text \<open>
  \<^verbatim>\<open>new Promise(async (_, reject) => reject(new Error(await res.text())))\<close>. The executor
  is an async function: when \<^verbatim>\<open>res.text()\<close> is fulfilled, \<^verbatim>\<open>reject\<close> is called with the
  new error; when it is rejected, the \<^verbatim>\<open>await\<close> throws inside the executor, which
  rejects the executor's own promise, nobody calls \<^verbatim>\<open>reject\<close>, and the new promise never
  settles.
\<close>

definition reject_with_text :: "Response \<Rightarrow> js promise" where
  "reject_with_text res =
     (case res_text res of
        Fulfilled str \<Rightarrow> Rejected (Error str)
      | Rejected e \<Rightarrow> Pending
      | Pending \<Rightarrow> Pending)"

text \<open>
  The chain \<^verbatim>\<open>fetch(...).then(...).then(...).catch(...).finally(...)\<close> of \<^verbatim>\<open>share\<close>,
  from what \<^verbatim>\<open>fetch\<close> settles to and the state of the component at that time.
\<close>

definition share_chain ::
  "(string \<Rightarrow> js option) \<Rightarrow> Response promise \<Rightarrow> Home \<Rightarrow> js promise \<times> Home" where
  "share_chain JSON_parse fetched s =
     finally_cb (setSharing False)
       (catch_cb (\<lambda>err s. (Fulfilled JUndefined, setError (Some err) s))
          (then_cb (\<lambda>v s. case destructure_snapshotId v of
                             Inl e \<Rightarrow> (Rejected e, s)
                           | Inr sid \<Rightarrow> (Fulfilled JUndefined, setSnapshotId sid s))
             (then_cb (\<lambda>res s. (if ok res then res_json JSON_parse res else reject_with_text res, s))
                (fetched, s))))"

section \<open>Example documents\<close>

text \<open>
  Two editable regions, each the child of an element with an id, as the page renders
  them; and an editable element whose parent has no id while its grandparent has one.
\<close>

definition two_regions :: element where
  "two_regions =
     Element [] []
       [Element [(''id'', ''title'')] ''Hello''
          [Element [(''contenteditable'', ''true'')] ''Hello'' []],
        Element [(''id'', ''intro'')] ''Welcome''
          [Element [(''contenteditable'', ''true'')] ''Welcome'' []]]"

definition wrapped_region :: element where
  "wrapped_region =
     Element [(''id'', ''title'')] ''Hello''
       [Element [] ''Hello''
          [Element [(''contenteditable'', ''true'')] ''Hello'' []]]"

section \<open>Properties of the resolver\<close>

text \<open>
  C2: when the preview flag is not set, the resolver returns exactly
  \<^verbatim>\<open>{ isPreview: false }\<close> and sends no request to the store, whatever the store holds
  and whatever \<^verbatim>\<open>previewData\<close> is.
\<close>

theorem inactive_no_read:
  "preview ctx \<noteq> Some True \<Longrightarrow>
   getStaticProps s3 bucket JSON_parse ctx =
     (Inr \<lparr>isPreview = False, snapshotId = None, contents = None,
           hasError = None, message = None\<rparr>, [])"
  by (simp add: getStaticProps_def)

theorem inactive_no_read_witness:
  "getStaticProps (\<lambda>r. Inr \<lparr>Body = Some ''[]''\<rparr>) (Some ''bucket'') (\<lambda>t. Some (JArray []))
     \<lparr>preview = Some False, previewData = JObject [(''snapshotId'', JString ''abc123'')]\<rparr> =
     (Inr \<lparr>isPreview = False, snapshotId = None, contents = None,
           hasError = None, message = None\<rparr>, [])"
  using inactive_no_read
    [of "\<lparr>preview = Some False, previewData = JObject [(''snapshotId'', JString ''abc123'')]\<rparr>"
        "\<lambda>r. Inr \<lparr>Body = Some ''[]''\<rparr>" "Some ''bucket''" "\<lambda>t. Some (JArray [])"]
  by simp

text \<open>
  What the template literal gives for identifiers of each kind: a string is itself; an
  array is joined with commas, \<^verbatim>\<open>null\<close> entries empty and nested arrays joined in turn;
  an object is \<^verbatim>\<open>[object Object]\<close>, unless it has an own key \<^verbatim>\<open>toString\<close>: then the
  conversion throws, also from inside an array.
\<close>

lemma template_literal_values:
  "ToString (JString ''abc123'') = Inr ''abc123''"
  "ToString JUndefined = Inr ''undefined''"
  "ToString JNull = Inr ''null''"
  "ToString (JBool False) = Inr ''false''"
  "ToString (JNumber ''42'') = Inr ''42''"
  "ToString (JArray []) = Inr []"
  "ToString (JArray [JNumber ''1'', JNull, JString ''a'', JArray [JBool True, JNumber ''2'']]) = Inr ''1,,a,true,2''"
  "ToString (JObject [(''id'', JString ''x'')]) = Inr ''[object Object]''"
  "ToString (JObject [(''id'', JString ''x''), (''toString'', JNull)]) = Inl TypeError"
  "ToString (JArray [JString ''a'', JObject [(''toString'', JString ''b'')], JString ''c'']) = Inl TypeError"
  by simp_all

text \<open>
  C3: in preview mode, when the store answers the request for the key
  \<^verbatim>\<open>"<snapshotId>.json"\<close> with an object whose body parses, the resolver sends exactly
  that one request and returns \<^verbatim>\<open>isPreview: true\<close>, the same \<^verbatim>\<open>snapshotId\<close> and the
  parsed document, and neither \<^verbatim>\<open>hasError\<close> nor \<^verbatim>\<open>message\<close>. The name in the key is
  the identifier itself when it is a string, and \<^verbatim>\<open>undefined\<close> when \<^verbatim>\<open>previewData\<close> has
  none; for any other identifier it is what the template literal converts it to. (A body
  that does not parse is a failed read: see C5.)
\<close>

theorem active_read_success:
  assumes "preview ctx = Some True"
    and "destructure_snapshotId (previewData ctx) = Inr sid"
    and "ToString sid = Inr name"
    and "s3 \<lparr>Bucket = bucket, Key = name @ ''.json''\<rparr> = Inr object"
    and "Body object = Some str"
    and "JSON_parse str = Some doc"
  shows "getStaticProps s3 bucket JSON_parse ctx =
           (Inr \<lparr>isPreview = True, snapshotId = Some sid, contents = Some doc,
                 hasError = None, message = None\<rparr>,
            [\<lparr>Bucket = bucket, Key = name @ ''.json''\<rparr>])
         \<and> (\<forall>s. sid = JString s \<longrightarrow> name = s)
         \<and> (sid = JUndefined \<longrightarrow> name = ''undefined'')"
  using assms by (auto simp: getStaticProps_def try_block_def)

theorem active_read_success_witness:
  "getStaticProps
     (\<lambda>r. if Key r = ''abc123.json'' then Inr \<lparr>Body = Some ''doc''\<rparr> else Inl (AWSError (Some 403)))
     (Some ''bucket'')
     (\<lambda>t. if t = ''doc'' then Some (json_of_edits [\<lparr>fe_id = ''title'', fe_innerText = ''Hello''\<rparr>]) else None)
     \<lparr>preview = Some True, previewData = JObject [(''snapshotId'', JString ''abc123'')]\<rparr> =
   (Inr \<lparr>isPreview = True, snapshotId = Some (JString ''abc123''),
         contents = Some (json_of_edits [\<lparr>fe_id = ''title'', fe_innerText = ''Hello''\<rparr>]),
         hasError = None, message = None\<rparr>,
    [\<lparr>Bucket = Some ''bucket'', Key = ''abc123.json''\<rparr>])
   \<and> getStaticProps
     (\<lambda>r. if Key r = ''7,,a,true.json'' then Inr \<lparr>Body = Some ''null''\<rparr> else Inl (AWSError (Some 403)))
     (Some ''bucket'')
     (\<lambda>t. if t = ''null'' then Some JNull else None)
     \<lparr>preview = Some True,
      previewData = JObject [(''snapshotId'',
        JArray [JNumber ''7'', JNull, JArray [JString ''a'', JBool True]])]\<rparr> =
   (Inr \<lparr>isPreview = True,
         snapshotId = Some (JArray [JNumber ''7'', JNull, JArray [JString ''a'', JBool True]]),
         contents = Some JNull, hasError = None, message = None\<rparr>,
    [\<lparr>Bucket = Some ''bucket'', Key = ''7,,a,true.json''\<rparr>])"
proof -
  have name: "ToString (JArray [JNumber ''7'', JNull, JArray [JString ''a'', JBool True]]) = Inr ''7,,a,true''"
    by simp
  from active_read_success
    [of "\<lparr>preview = Some True, previewData = JObject [(''snapshotId'', JString ''abc123'')]\<rparr>"
        "JString ''abc123''" "''abc123''"
        "\<lambda>r. if Key r = ''abc123.json'' then Inr \<lparr>Body = Some ''doc''\<rparr> else Inl (AWSError (Some 403))"
        "Some ''bucket''" "\<lparr>Body = Some ''doc''\<rparr>" "''doc''"
        "\<lambda>t. if t = ''doc'' then Some (json_of_edits [\<lparr>fe_id = ''title'', fe_innerText = ''Hello''\<rparr>]) else None"
        "json_of_edits [\<lparr>fe_id = ''title'', fe_innerText = ''Hello''\<rparr>]"]
  have first: "getStaticProps
     (\<lambda>r. if Key r = ''abc123.json'' then Inr \<lparr>Body = Some ''doc''\<rparr> else Inl (AWSError (Some 403)))
     (Some ''bucket'')
     (\<lambda>t. if t = ''doc'' then Some (json_of_edits [\<lparr>fe_id = ''title'', fe_innerText = ''Hello''\<rparr>]) else None)
     \<lparr>preview = Some True, previewData = JObject [(''snapshotId'', JString ''abc123'')]\<rparr> =
   (Inr \<lparr>isPreview = True, snapshotId = Some (JString ''abc123''),
         contents = Some (json_of_edits [\<lparr>fe_id = ''title'', fe_innerText = ''Hello''\<rparr>]),
         hasError = None, message = None\<rparr>,
    [\<lparr>Bucket = Some ''bucket'', Key = ''abc123.json''\<rparr>])"
    by simp
  from name active_read_success
    [of "\<lparr>preview = Some True,
          previewData = JObject [(''snapshotId'',
            JArray [JNumber ''7'', JNull, JArray [JString ''a'', JBool True]])]\<rparr>"
        "JArray [JNumber ''7'', JNull, JArray [JString ''a'', JBool True]]" "''7,,a,true''"
        "\<lambda>r. if Key r = ''7,,a,true.json'' then Inr \<lparr>Body = Some ''null''\<rparr> else Inl (AWSError (Some 403))"
        "Some ''bucket''" "\<lparr>Body = Some ''null''\<rparr>" "''null''"
        "\<lambda>t. if t = ''null'' then Some JNull else None" JNull]
  have second: "getStaticProps
     (\<lambda>r. if Key r = ''7,,a,true.json'' then Inr \<lparr>Body = Some ''null''\<rparr> else Inl (AWSError (Some 403)))
     (Some ''bucket'')
     (\<lambda>t. if t = ''null'' then Some JNull else None)
     \<lparr>preview = Some True,
      previewData = JObject [(''snapshotId'',
        JArray [JNumber ''7'', JNull, JArray [JString ''a'', JBool True]])]\<rparr> =
   (Inr \<lparr>isPreview = True,
         snapshotId = Some (JArray [JNumber ''7'', JNull, JArray [JString ''a'', JBool True]]),
         contents = Some JNull, hasError = None, message = None\<rparr>,
    [\<lparr>Bucket = Some ''bucket'', Key = ''7,,a,true.json''\<rparr>])"
    by simp
  from first second show ?thesis by (rule conjI)
qed

text \<open>
  C4, as the code has it: in preview mode, when the store rejects the request for the key
  \<^verbatim>\<open>"<snapshotId>.json"\<close> with an error whose \<^verbatim>\<open>statusCode\<close> is 403, the resolver
  returns \<^verbatim>\<open>isPreview: false\<close>, \<^verbatim>\<open>hasError: true\<close> and the message
  \<^verbatim>\<open>The requested preview edit does not exist!\<close>, having sent that one request. The name
  in the key is as in C3.
\<close>

theorem not_found_result:
  assumes "preview ctx = Some True"
    and "destructure_snapshotId (previewData ctx) = Inr sid"
    and "ToString sid = Inr name"
    and "s3 \<lparr>Bucket = bucket, Key = name @ ''.json''\<rparr> = Inl e"
    and "statusCode e = Some 403"
  shows "getStaticProps s3 bucket JSON_parse ctx =
           (Inr \<lparr>isPreview = False, snapshotId = None, contents = None, hasError = Some True,
                 message = Some ''The requested preview edit does not exist!''\<rparr>,
            [\<lparr>Bucket = bucket, Key = name @ ''.json''\<rparr>])
         \<and> (\<forall>s. sid = JString s \<longrightarrow> name = s)
         \<and> (sid = JUndefined \<longrightarrow> name = ''undefined'')"
  using assms by (auto simp: getStaticProps_def try_block_def)

theorem not_found_result_witness:
  "getStaticProps (\<lambda>r. Inl (AWSError (Some 403))) (Some ''bucket'') (\<lambda>t. None)
     \<lparr>preview = Some True, previewData = JObject [(''snapshotId'', JString ''never-written'')]\<rparr> =
   (Inr \<lparr>isPreview = False, snapshotId = None, contents = None, hasError = Some True,
         message = Some ''The requested preview edit does not exist!''\<rparr>,
    [\<lparr>Bucket = Some ''bucket'', Key = ''never-written.json''\<rparr>])
   \<and> getStaticProps (\<lambda>r. Inl (AWSError (Some 403))) (Some ''bucket'') (\<lambda>t. None)
     \<lparr>preview = Some True, previewData = JObject []\<rparr> =
   (Inr \<lparr>isPreview = False, snapshotId = None, contents = None, hasError = Some True,
         message = Some ''The requested preview edit does not exist!''\<rparr>,
    [\<lparr>Bucket = Some ''bucket'', Key = ''undefined.json''\<rparr>])"
proof -
  from not_found_result
    [of "\<lparr>preview = Some True, previewData = JObject [(''snapshotId'', JString ''never-written'')]\<rparr>"
        "JString ''never-written''" "''never-written''" "\<lambda>r. Inl (AWSError (Some 403))"
        "Some ''bucket''" "AWSError (Some 403)" "\<lambda>t. None"]
  have first: "getStaticProps (\<lambda>r. Inl (AWSError (Some 403))) (Some ''bucket'') (\<lambda>t. None)
     \<lparr>preview = Some True, previewData = JObject [(''snapshotId'', JString ''never-written'')]\<rparr> =
   (Inr \<lparr>isPreview = False, snapshotId = None, contents = None, hasError = Some True,
         message = Some ''The requested preview edit does not exist!''\<rparr>,
    [\<lparr>Bucket = Some ''bucket'', Key = ''never-written.json''\<rparr>])"
    by simp
  from not_found_result
    [of "\<lparr>preview = Some True, previewData = JObject []\<rparr>"
        JUndefined "''undefined''" "\<lambda>r. Inl (AWSError (Some 403))"
        "Some ''bucket''" "AWSError (Some 403)" "\<lambda>t. None"]
  have second: "getStaticProps (\<lambda>r. Inl (AWSError (Some 403))) (Some ''bucket'') (\<lambda>t. None)
     \<lparr>preview = Some True, previewData = JObject []\<rparr> =
   (Inr \<lparr>isPreview = False, snapshotId = None, contents = None, hasError = Some True,
         message = Some ''The requested preview edit does not exist!''\<rparr>,
    [\<lparr>Bucket = Some ''bucket'', Key = ''undefined.json''\<rparr>])"
    by simp
  from first second show ?thesis by (rule conjI)
qed

text \<open>
  The message of the specification, \<^verbatim>\<open>requested preview edit does not exist\<close>, is not the
  one the code returns for a snapshot that was never written.
\<close>

theorem not_found_message_counterexample:
  "fst (getStaticProps (\<lambda>r. Inl (AWSError (Some 403))) (Some ''bucket'') (\<lambda>t. None)
     \<lparr>preview = Some True, previewData = JObject [(''snapshotId'', JString ''never-written'')]\<rparr>) \<noteq>
   Inr \<lparr>isPreview = False, snapshotId = None, contents = None, hasError = Some True,
        message = Some ''requested preview edit does not exist''\<rparr>"
  by (simp add: getStaticProps_def try_block_def)

text \<open>
  C5, as the code has it: in preview mode, when the \<^verbatim>\<open>try\<close> block fails with any error
  whose \<^verbatim>\<open>statusCode\<close> is not 403 (a request rejected for another reason, a missing
  body, a body that \<^verbatim>\<open>JSON.parse\<close> rejects, an identifier the template literal cannot
  convert), the resolver returns \<^verbatim>\<open>isPreview: false\<close>, \<^verbatim>\<open>hasError: true\<close> and the
  message \<^verbatim>\<open>An error has occurred while connecting to S3. Please refresh the page to try again.\<close>
  It has sent the one request for the key \<^verbatim>\<open>"<snapshotId>.json"\<close>, or none when the
  identifier could not be converted.
\<close>

theorem other_failure_result:
  assumes "preview ctx = Some True"
    and "destructure_snapshotId (previewData ctx) = Inr sid"
    and "try_block s3 bucket JSON_parse sid = (Inl e, reqs)"
    and "statusCode e \<noteq> Some 403"
  shows "getStaticProps s3 bucket JSON_parse ctx =
           (Inr \<lparr>isPreview = False, snapshotId = None, contents = None, hasError = Some True,
                 message = Some ''An error has occurred while connecting to S3. Please refresh the page to try again.''\<rparr>,
            reqs)
         \<and> reqs = (case ToString sid of
                     Inl x \<Rightarrow> []
                   | Inr name \<Rightarrow> [\<lparr>Bucket = bucket, Key = name @ ''.json''\<rparr>])
         \<and> (\<forall>s. sid = JString s \<longrightarrow> reqs = [\<lparr>Bucket = bucket, Key = s @ ''.json''\<rparr>])"
  using assms
  by (auto simp: getStaticProps_def try_block_def Let_def split: sum.splits option.splits)

theorem other_failure_result_witness:
  "getStaticProps (\<lambda>r. Inl (AWSError (Some 500))) (Some ''bucket'') (\<lambda>t. None)
     \<lparr>preview = Some True, previewData = JObject [(''snapshotId'', JString ''abc123'')]\<rparr> =
   (Inr \<lparr>isPreview = False, snapshotId = None, contents = None, hasError = Some True,
         message = Some ''An error has occurred while connecting to S3. Please refresh the page to try again.''\<rparr>,
    [\<lparr>Bucket = Some ''bucket'', Key = ''abc123.json''\<rparr>])
   \<and> getStaticProps (\<lambda>r. Inr \<lparr>Body = Some ''not json''\<rparr>) (Some ''bucket'') (\<lambda>t. None)
     \<lparr>preview = Some True, previewData = JObject [(''snapshotId'', JString ''abc123'')]\<rparr> =
   (Inr \<lparr>isPreview = False, snapshotId = None, contents = None, hasError = Some True,
         message = Some ''An error has occurred while connecting to S3. Please refresh the page to try again.''\<rparr>,
    [\<lparr>Bucket = Some ''bucket'', Key = ''abc123.json''\<rparr>])
   \<and> getStaticProps (\<lambda>r. Inr \<lparr>Body = Some ''[]''\<rparr>) (Some ''bucket'') (\<lambda>t. Some (JArray []))
     \<lparr>preview = Some True,
      previewData = JObject [(''snapshotId'', JObject [(''toString'', JString ''abc123'')])]\<rparr> =
   (Inr \<lparr>isPreview = False, snapshotId = None, contents = None, hasError = Some True,
         message = Some ''An error has occurred while connecting to S3. Please refresh the page to try again.''\<rparr>,
    [])"
proof -
  have rejected: "try_block (\<lambda>r. Inl (AWSError (Some 500))) (Some ''bucket'') (\<lambda>t. None) (JString ''abc123'')
      = (Inl (AWSError (Some 500)), [\<lparr>Bucket = Some ''bucket'', Key = ''abc123.json''\<rparr>])"
    by (simp add: try_block_def)
  have unparsed: "try_block (\<lambda>r. Inr \<lparr>Body = Some ''not json''\<rparr>) (Some ''bucket'') (\<lambda>t. None) (JString ''abc123'')
      = (Inl SyntaxError, [\<lparr>Bucket = Some ''bucket'', Key = ''abc123.json''\<rparr>])"
    by (simp add: try_block_def)
  have thrown: "try_block (\<lambda>r. Inr \<lparr>Body = Some ''[]''\<rparr>) (Some ''bucket'') (\<lambda>t. Some (JArray []))
        (JObject [(''toString'', JString ''abc123'')])
      = (Inl TypeError, [])"
    by (simp add: try_block_def)
  from other_failure_result
    [of "\<lparr>preview = Some True, previewData = JObject [(''snapshotId'', JString ''abc123'')]\<rparr>"
        "JString ''abc123''" "\<lambda>r. Inl (AWSError (Some 500))" "Some ''bucket''" "\<lambda>t. None"
        "AWSError (Some 500)" "[\<lparr>Bucket = Some ''bucket'', Key = ''abc123.json''\<rparr>]"]
    rejected
  have first: "getStaticProps (\<lambda>r. Inl (AWSError (Some 500))) (Some ''bucket'') (\<lambda>t. None)
     \<lparr>preview = Some True, previewData = JObject [(''snapshotId'', JString ''abc123'')]\<rparr> =
   (Inr \<lparr>isPreview = False, snapshotId = None, contents = None, hasError = Some True,
         message = Some ''An error has occurred while connecting to S3. Please refresh the page to try again.''\<rparr>,
    [\<lparr>Bucket = Some ''bucket'', Key = ''abc123.json''\<rparr>])"
    by simp
  from other_failure_result
    [of "\<lparr>preview = Some True, previewData = JObject [(''snapshotId'', JString ''abc123'')]\<rparr>"
        "JString ''abc123''" "\<lambda>r. Inr \<lparr>Body = Some ''not json''\<rparr>" "Some ''bucket''" "\<lambda>t. None"
        SyntaxError "[\<lparr>Bucket = Some ''bucket'', Key = ''abc123.json''\<rparr>]"]
    unparsed
  have second: "getStaticProps (\<lambda>r. Inr \<lparr>Body = Some ''not json''\<rparr>) (Some ''bucket'') (\<lambda>t. None)
     \<lparr>preview = Some True, previewData = JObject [(''snapshotId'', JString ''abc123'')]\<rparr> =
   (Inr \<lparr>isPreview = False, snapshotId = None, contents = None, hasError = Some True,
         message = Some ''An error has occurred while connecting to S3. Please refresh the page to try again.''\<rparr>,
    [\<lparr>Bucket = Some ''bucket'', Key = ''abc123.json''\<rparr>])"
    by simp
  from other_failure_result
    [of "\<lparr>preview = Some True,
          previewData = JObject [(''snapshotId'', JObject [(''toString'', JString ''abc123'')])]\<rparr>"
        "JObject [(''toString'', JString ''abc123'')]" "\<lambda>r. Inr \<lparr>Body = Some ''[]''\<rparr>"
        "Some ''bucket''" "\<lambda>t. Some (JArray [])" TypeError "[]"]
    thrown
  have third: "getStaticProps (\<lambda>r. Inr \<lparr>Body = Some ''[]''\<rparr>) (Some ''bucket'') (\<lambda>t. Some (JArray []))
     \<lparr>preview = Some True,
      previewData = JObject [(''snapshotId'', JObject [(''toString'', JString ''abc123'')])]\<rparr> =
   (Inr \<lparr>isPreview = False, snapshotId = None, contents = None, hasError = Some True,
         message = Some ''An error has occurred while connecting to S3. Please refresh the page to try again.''\<rparr>,
    [])"
    by simp
  from first second third show ?thesis by (intro conjI)
qed

text \<open>
  The message of the specification, \<^verbatim>\<open>storage connectivity error, retry by reloading\<close>,
  is not the one the code returns when the store answers with a 500.
\<close>

theorem connectivity_message_counterexample:
  "fst (getStaticProps (\<lambda>r. Inl (AWSError (Some 500))) (Some ''bucket'') (\<lambda>t. None)
     \<lparr>preview = Some True, previewData = JObject [(''snapshotId'', JString ''abc123'')]\<rparr>) \<noteq>
   Inr \<lparr>isPreview = False, snapshotId = None, contents = None, hasError = Some True,
        message = Some ''storage connectivity error, retry by reloading''\<rparr>"
  by (simp add: getStaticProps_def try_block_def)

text \<open>An object, a string, a number, a boolean or an array can be destructured.\<close>

lemma destructure_present:
  "v \<noteq> JUndefined \<Longrightarrow> v \<noteq> JNull \<Longrightarrow> \<exists>sid. destructure_snapshotId v = Inr sid"
  by (cases v) (auto split: option.splits)

text \<open>
  C6, as the code has it: when the preview flag is not set, or \<^verbatim>\<open>previewData\<close> is
  anything but \<^verbatim>\<open>undefined\<close> and \<^verbatim>\<open>null\<close> (an object without \<^verbatim>\<open>snapshotId\<close>, or a
  value that is no object, included), the resolver returns a result to its caller and
  does not raise: every failure of the store read is in the result.
\<close>

theorem resolve_returns:
  assumes "preview ctx \<noteq> Some True \<or> (previewData ctx \<noteq> JUndefined \<and> previewData ctx \<noteq> JNull)"
  shows "\<exists>r. fst (getStaticProps s3 bucket JSON_parse ctx) = Inr r"
proof (cases "preview ctx = Some True")
  case False
  then show ?thesis by (simp add: getStaticProps_def)
next
  case True
  with assms obtain sid where "destructure_snapshotId (previewData ctx) = Inr sid"
    using destructure_present by blast
  with True show ?thesis
    by (simp add: getStaticProps_def split: prod.splits sum.splits)
qed

theorem resolve_returns_witness:
  "\<exists>r. fst (getStaticProps (\<lambda>r. Inl TypeError) None (\<lambda>t. None)
          \<lparr>preview = Some True, previewData = JString ''malformed''\<rparr>) = Inr r"
  using resolve_returns
    [of "\<lparr>preview = Some True, previewData = JString ''malformed''\<rparr>"
        "\<lambda>r. Inl TypeError" None "\<lambda>t. None"]
  by simp

text \<open>
  In preview mode with \<^verbatim>\<open>previewData\<close> absent, or \<^verbatim>\<open>null\<close>, the destructuring before
  the \<^verbatim>\<open>try\<close> throws and the \<^verbatim>\<open>TypeError\<close> reaches the caller; no request is sent.
\<close>

theorem absent_preview_data_counterexample:
  "getStaticProps (\<lambda>r. Inr \<lparr>Body = Some ''[]''\<rparr>) (Some ''bucket'') (\<lambda>t. Some (JArray []))
     \<lparr>preview = Some True, previewData = JUndefined\<rparr> = (Inl TypeError, [])
   \<and> getStaticProps (\<lambda>r. Inr \<lparr>Body = Some ''[]''\<rparr>) (Some ''bucket'') (\<lambda>t. Some (JArray []))
     \<lparr>preview = Some True, previewData = JNull\<rparr> = (Inl TypeError, [])"
  by (simp add: getStaticProps_def)

text \<open>
  C9: in every result the resolver returns, \<^verbatim>\<open>isPreview: true\<close> and \<^verbatim>\<open>hasError: true\<close>
  exclude each other: a result with \<^verbatim>\<open>isPreview\<close> true has neither \<^verbatim>\<open>hasError\<close> nor
  \<^verbatim>\<open>message\<close>, and a result with \<^verbatim>\<open>hasError\<close> true has \<^verbatim>\<open>isPreview\<close> false.
\<close>

theorem preview_error_exclusive:
  assumes "fst (getStaticProps s3 bucket JSON_parse ctx) = Inr r"
  shows "\<not> (isPreview r \<and> hasError r = Some True)
       \<and> (isPreview r \<longrightarrow> hasError r = None \<and> message r = None)
       \<and> (hasError r = Some True \<longrightarrow> \<not> isPreview r)"
  using assms
  by (auto simp: getStaticProps_def split: if_splits prod.splits sum.splits)

theorem preview_error_exclusive_witness:
  "fst (getStaticProps (\<lambda>r. Inr \<lparr>Body = Some ''[]''\<rparr>) (Some ''bucket'') (\<lambda>t. Some (JArray []))
      \<lparr>preview = Some True, previewData = JObject [(''snapshotId'', JString ''abc123'')]\<rparr>) =
     Inr \<lparr>isPreview = True, snapshotId = Some (JString ''abc123''), contents = Some (JArray []),
          hasError = None, message = None\<rparr>
   \<and> fst (getStaticProps (\<lambda>r. Inl (AWSError (Some 403))) (Some ''bucket'') (\<lambda>t. None)
      \<lparr>preview = Some True, previewData = JObject [(''snapshotId'', JString ''abc123'')]\<rparr>) =
     Inr \<lparr>isPreview = False, snapshotId = None, contents = None, hasError = Some True,
          message = Some ''The requested preview edit does not exist!''\<rparr>"
proof -
  have ok: "fst (getStaticProps (\<lambda>r. Inr \<lparr>Body = Some ''[]''\<rparr>) (Some ''bucket'') (\<lambda>t. Some (JArray []))
      \<lparr>preview = Some True, previewData = JObject [(''snapshotId'', JString ''abc123'')]\<rparr>) =
     Inr \<lparr>isPreview = True, snapshotId = Some (JString ''abc123''), contents = Some (JArray []),
          hasError = None, message = None\<rparr>"
    by (simp add: getStaticProps_def try_block_def)
  have failed: "fst (getStaticProps (\<lambda>r. Inl (AWSError (Some 403))) (Some ''bucket'') (\<lambda>t. None)
      \<lparr>preview = Some True, previewData = JObject [(''snapshotId'', JString ''abc123'')]\<rparr>) =
     Inr \<lparr>isPreview = False, snapshotId = None, contents = None, hasError = Some True,
          message = Some ''The requested preview edit does not exist!''\<rparr>"
    by (simp add: getStaticProps_def try_block_def)
  from preview_error_exclusive [OF ok] preview_error_exclusive [OF failed] ok failed
  show ?thesis by simp
qed

section \<open>Saving and resolving\<close>

text \<open>Read back as edits, the JSON form of a list of edits gives its pairs of id and text.\<close>

lemma edit_pair_json_of_edit: "edit_pair (json_of_edit f) = Some (fe_id f, fe_innerText f)"
  by (simp add: json_of_edit_def)

lemma edit_pairs_json_of_edits:
  "edit_pairs (json_of_edits fs) = set (map (\<lambda>f. (fe_id f, fe_innerText f)) fs)"
  by (induction fs) (auto simp: json_of_edits_def List.map_filter_simps edit_pair_json_of_edit)

text \<open>
  C1: round trip. After a successful \<open>save\<close> of any list of edits, empty or not, the
  resolver, run in preview mode with the returned identifier against the store as
  \<open>save\<close> left it, returns \<^verbatim>\<open>isPreview: true\<close>, that identifier, and a document whose
  pairs of id and text are those of the edits saved. \<^verbatim>\<open>JSON.parse\<close> is taken to invert
  \<^verbatim>\<open>JSON.stringify\<close> on the document.
\<close>

theorem save_resolve_roundtrip:
  assumes parse: "JSON_parse (JSON_stringify (json_of_edits edits)) = Some (json_of_edits edits)"
    and saved: "save JSON_stringify fresh_id write_failure edits objects = Inr (sid, objects')"
  shows "\<exists>doc. getStaticProps (store_client bucket objects') (Some bucket) JSON_parse
            \<lparr>preview = Some True, previewData = JObject [(''snapshotId'', JString sid)]\<rparr> =
           (Inr \<lparr>isPreview = True, snapshotId = Some (JString sid), contents = Some doc,
                 hasError = None, message = None\<rparr>,
            [\<lparr>Bucket = Some bucket, Key = sid @ ''.json''\<rparr>])
         \<and> edit_pairs doc = set (map (\<lambda>f. (fe_id f, fe_innerText f)) edits)"
proof -
  from saved have sid: "sid = fresh_id"
    and objs: "objects' = objects(fresh_id @ ''.json'' \<mapsto> JSON_stringify (json_of_edits edits))"
    by (auto simp: save_def split: option.splits)
  have "try_block (store_client bucket objects') (Some bucket) JSON_parse (JString sid)
          = (Inr (json_of_edits edits), [\<lparr>Bucket = Some bucket, Key = sid @ ''.json''\<rparr>])"
    by (simp add: try_block_def store_client_def sid objs parse)
  then have "getStaticProps (store_client bucket objects') (Some bucket) JSON_parse
            \<lparr>preview = Some True, previewData = JObject [(''snapshotId'', JString sid)]\<rparr> =
           (Inr \<lparr>isPreview = True, snapshotId = Some (JString sid),
                 contents = Some (json_of_edits edits), hasError = None, message = None\<rparr>,
            [\<lparr>Bucket = Some bucket, Key = sid @ ''.json''\<rparr>])"
    by (simp add: getStaticProps_def)
  then show ?thesis using edit_pairs_json_of_edits by blast
qed

theorem save_resolve_roundtrip_witness:
  "\<exists>doc. getStaticProps (store_client ''bucket'' [''abc123.json'' \<mapsto> ''doc'']) (Some ''bucket'')
            (\<lambda>t. if t = ''doc'' then Some (json_of_edits [\<lparr>fe_id = ''title'', fe_innerText = ''Hello''\<rparr>])
                  else None)
            \<lparr>preview = Some True, previewData = JObject [(''snapshotId'', JString ''abc123'')]\<rparr> =
           (Inr \<lparr>isPreview = True, snapshotId = Some (JString ''abc123''), contents = Some doc,
                 hasError = None, message = None\<rparr>,
            [\<lparr>Bucket = Some ''bucket'', Key = ''abc123.json''\<rparr>])
         \<and> edit_pairs doc = {(''title'', ''Hello'')}"
proof -
  have saved: "save (\<lambda>v. ''doc'') ''abc123'' None [\<lparr>fe_id = ''title'', fe_innerText = ''Hello''\<rparr>] Map.empty
      = Inr (''abc123'', [''abc123.json'' \<mapsto> ''doc''])"
    by (simp add: save_def)
  from saved
    save_resolve_roundtrip
      [where JSON_parse = "\<lambda>t. if t = ''doc''
                             then Some (json_of_edits [\<lparr>fe_id = ''title'', fe_innerText = ''Hello''\<rparr>])
                             else None"
         and JSON_stringify = "\<lambda>v. ''doc''"
         and edits = "[\<lparr>fe_id = ''title'', fe_innerText = ''Hello''\<rparr>]"
         and fresh_id = "''abc123''" and write_failure = None and objects = Map.empty
         and sid = "''abc123''" and objects' = "[''abc123.json'' \<mapsto> ''doc'']"
         and bucket = "''bucket''"]
  show ?thesis by simp
qed

section \<open>Properties of the edit collector\<close>

text \<open>The selection is the document's parent-child pairs that satisfy the selector.\<close>

lemma select_below_filter:
  "select_below d = filter (\<lambda>(p, c). hasAttribute ''id'' p \<and> editable c) (parent_child d)"
proof (induction d rule: select_below.induct)
  case (1 as t cs)
  let ?sel = "\<lambda>(p, c). hasAttribute ''id'' p \<and> editable c"
  have "map (\<lambda>c. (if hasAttribute ''id'' (Element as t cs) \<and> editable c
                   then [(Element as t cs, c)] else []) @ select_below c) cs
      = map (\<lambda>c. filter ?sel ((Element as t cs, c) # parent_child c)) cs"
    by (rule map_cong [OF refl]) (simp add: 1)
  then have "concat (map (\<lambda>c. (if hasAttribute ''id'' (Element as t cs) \<and> editable c
                   then [(Element as t cs, c)] else []) @ select_below c) cs)
      = concat (map (\<lambda>c. filter ?sel ((Element as t cs, c) # parent_child c)) cs)"
    by (rule arg_cong)
  also have "\<dots> = filter ?sel (parent_child (Element as t cs))"
    by (simp only: parent_child.simps filter_concat map_map comp_def)
  finally show ?case by (simp only: select_below.simps)
qed

lemma elements_parent_child: "elements d = d # map snd (parent_child d)"
proof (induction d rule: elements.induct)
  case (1 as t cs)
  have "concat (map elements cs) = concat (map (\<lambda>c. c # map snd (parent_child c)) cs)"
    by (rule arg_cong [where f = concat], rule map_cong) (auto simp: 1)
  then show ?case by (simp add: map_concat comp_def)
qed

lemma editable_under_id_child:
  "editable_under_id (Element as t cs) \<Longrightarrow> c \<in> set cs \<Longrightarrow>
     editable_under_id c \<and> (editable c \<longrightarrow> hasAttribute ''id'' (Element as t cs))"
  by (auto simp: editable_under_id_def list_all_iff)

text \<open>
  Where every editable element is the child of an element with an id, that parent is
  the nearest identified ancestor and the two collectors agree.
\<close>

lemma spec_collect_below_select:
  "editable_under_id d \<Longrightarrow>
   spec_collect_below nearest d =
     map (\<lambda>(p, c). \<lparr>fe_id = element_id p, fe_innerText = innerText c\<rparr>) (select_below d)"
proof (induction nearest d rule: spec_collect_below.induct)
  case (1 nearest as t cs)
  let ?n = "case map_of as ''id'' of Some i \<Rightarrow> Some i | None \<Rightarrow> nearest"
  let ?mk = "\<lambda>(p, c). \<lparr>fe_id = element_id p, fe_innerText = innerText c\<rparr>"
  let ?F = "\<lambda>c. (if editable c then
           (case ?n of Some i \<Rightarrow> [\<lparr>fe_id = i, fe_innerText = innerText c\<rparr>] | None \<Rightarrow> [])
         else []) @ spec_collect_below ?n c"
  let ?G = "\<lambda>c. map ?mk ((if hasAttribute ''id'' (Element as t cs) \<and> editable c
                        then [(Element as t cs, c)] else []) @ select_below c)"
  have eq: "map ?F cs = map ?G cs"
  proof (rule map_cong [OF refl])
    fix c assume c: "c \<in> set cs"
    from editable_under_id_child [OF "1.prems" c]
    have sub: "editable_under_id c" and ed: "editable c \<longrightarrow> hasAttribute ''id'' (Element as t cs)"
      by simp_all
    have ih: "spec_collect_below ?n c = map ?mk (select_below c)"
      using "1.IH" [OF c sub] .
    show "?F c = ?G c"
      using ed by (auto simp: ih hasAttribute_def element_id_def split: option.splits)
  qed
  have "spec_collect_below nearest (Element as t cs) = concat (map ?F cs)"
    by simp
  also have "\<dots> = concat (map ?G cs)"
    by (simp only: eq)
  also have "\<dots> = map ?mk (select_below (Element as t cs))"
    by (simp only: select_below.simps map_concat map_map comp_def)
  finally show ?case .
qed

lemma distinct_once:
  "distinct (map f xs) \<Longrightarrow> x \<in> set xs \<Longrightarrow> length (filter (\<lambda>y. f y = f x) xs) = 1"
proof (induction xs)
  case Nil
  then show ?case by simp
next
  case (Cons a xs)
  show ?case
  proof (cases "a = x")
    case True
    with Cons.prems have "filter (\<lambda>y. f y = f x) xs = []"
      by (auto simp: filter_empty_conv image_iff)
    with True show ?thesis by simp
  next
    case False
    with Cons.prems have "x \<in> set xs" and "f a \<noteq> f x"
      by (auto simp: image_iff)
    with Cons show ?thesis by simp
  qed
qed

text \<open>
  C7, as the code has it: for every rendered document the collector gives, in document
  order, one record \<^verbatim>\<open>{ id, innerText }\<close> per element that has
  \<^verbatim>\<open>contenteditable="true"\<close> and whose parent element has an \<^verbatim>\<open>id\<close> attribute; the
  record's id is the parent's id and its text the element's \<^verbatim>\<open>innerText\<close>. Where every
  editable element is the child of an element with an id, this is the collector of the
  specification (the parent is the nearest identified ancestor), and it gives one record
  per editable element. Where the collected ids are distinct, each occurs in exactly one
  record.
\<close>

theorem collector_direct_children:
  "persistContents d =
     map (\<lambda>(p, c). \<lparr>fe_id = element_id p, fe_innerText = innerText c\<rparr>)
       (filter (\<lambda>(p, c). hasAttribute ''id'' p \<and> editable c) (parent_child d))
   \<and> (editable_under_id d \<longrightarrow> persistContents d = spec_collect d)
   \<and> (editable_under_id d \<and> \<not> editable d \<longrightarrow>
        length (persistContents d) = length (filter editable (elements d)))
   \<and> (distinct (map fe_id (persistContents d)) \<longrightarrow>
        (\<forall>f \<in> set (persistContents d).
           length (filter (\<lambda>g. fe_id g = fe_id f) (persistContents d)) = 1))"
proof (intro conjI impI ballI)
  show "persistContents d =
     map (\<lambda>(p, c). \<lparr>fe_id = element_id p, fe_innerText = innerText c\<rparr>)
       (filter (\<lambda>(p, c). hasAttribute ''id'' p \<and> editable c) (parent_child d))"
    by (simp add: persistContents_def querySelectorAll_def select_below_filter)
next
  assume "editable_under_id d"
  then show "persistContents d = spec_collect d"
    by (simp add: persistContents_def querySelectorAll_def spec_collect_def spec_collect_below_select)
next
  assume a: "editable_under_id d \<and> \<not> editable d"
  then have "filter (\<lambda>(p, c). hasAttribute ''id'' p \<and> editable c) (parent_child d)
      = filter (\<lambda>pc. editable (snd pc)) (parent_child d)"
    by (intro filter_cong refl) (auto simp: editable_under_id_def list_all_iff)
  with a show "length (persistContents d) = length (filter editable (elements d))"
    by (simp add: persistContents_def querySelectorAll_def select_below_filter
        elements_parent_child filter_map comp_def)
next
  fix f assume "distinct (map fe_id (persistContents d))" and "f \<in> set (persistContents d)"
  then show "length (filter (\<lambda>g. fe_id g = fe_id f) (persistContents d)) = 1"
    by (rule distinct_once)
qed

theorem collector_direct_children_witness:
  "persistContents two_regions =
     [\<lparr>fe_id = ''title'', fe_innerText = ''Hello''\<rparr>, \<lparr>fe_id = ''intro'', fe_innerText = ''Welcome''\<rparr>]
   \<and> persistContents two_regions = spec_collect two_regions
   \<and> length (persistContents two_regions) = length (filter editable (elements two_regions))
   \<and> length (filter (\<lambda>g. fe_id g = ''title'') (persistContents two_regions)) = 1
   \<and> length (filter (\<lambda>g. fe_id g = ''intro'') (persistContents two_regions)) = 1"
proof -
  have val: "persistContents two_regions =
     [\<lparr>fe_id = ''title'', fe_innerText = ''Hello''\<rparr>, \<lparr>fe_id = ''intro'', fe_innerText = ''Welcome''\<rparr>]"
    by (simp add: two_regions_def persistContents_def querySelectorAll_def hasAttribute_def
        editable_def element_id_def)
  have placed: "editable_under_id two_regions"
    by (simp add: two_regions_def editable_under_id_def hasAttribute_def editable_def)
  have root: "\<not> editable two_regions"
    by (simp add: two_regions_def editable_def)
  have ids: "distinct (map fe_id (persistContents two_regions))"
    by (simp add: val)
  from collector_direct_children [of two_regions] placed root ids
  have agree: "persistContents two_regions = spec_collect two_regions"
    and count: "length (persistContents two_regions) = length (filter editable (elements two_regions))"
    and once: "\<forall>f \<in> set (persistContents two_regions).
        length (filter (\<lambda>g. fe_id g = fe_id f) (persistContents two_regions)) = 1"
    by blast+
  have title: "\<lparr>fe_id = ''title'', fe_innerText = ''Hello''\<rparr> \<in> set (persistContents two_regions)"
    and intro: "\<lparr>fe_id = ''intro'', fe_innerText = ''Welcome''\<rparr> \<in> set (persistContents two_regions)"
    by (simp_all add: val)
  from once title have "length (filter (\<lambda>g. fe_id g = fe_id \<lparr>fe_id = ''title'', fe_innerText = ''Hello''\<rparr>)
      (persistContents two_regions)) = 1"
    by (rule bspec)
  then have one_title: "length (filter (\<lambda>g. fe_id g = ''title'') (persistContents two_regions)) = 1"
    by simp
  from once intro have "length (filter (\<lambda>g. fe_id g = fe_id \<lparr>fe_id = ''intro'', fe_innerText = ''Welcome''\<rparr>)
      (persistContents two_regions)) = 1"
    by (rule bspec)
  then have one_intro: "length (filter (\<lambda>g. fe_id g = ''intro'') (persistContents two_regions)) = 1"
    by simp
  from val agree count one_title one_intro show ?thesis
    by (intro conjI)
qed

text \<open>
  An editable element whose parent has no id is not collected, though the document has
  it and its grandparent is identified: the specification's collector gives one edit.
\<close>

theorem collector_counterexample:
  "filter editable (elements wrapped_region) = [Element [(''contenteditable'', ''true'')] ''Hello'' []]
   \<and> spec_collect wrapped_region = [\<lparr>fe_id = ''title'', fe_innerText = ''Hello''\<rparr>]
   \<and> persistContents wrapped_region = []"
  by (simp add: wrapped_region_def persistContents_def querySelectorAll_def editable_def
      hasAttribute_def spec_collect_def)

section \<open>Properties of the save action\<close>

text \<open>
  C8: while a save request is pending, \<^verbatim>\<open>share\<close> is a no-op: the state is unchanged,
  with no query of the document and no \<^verbatim>\<open>fetch\<close>. So two triggers in a row from an
  idle component leave the state of the first, and add exactly one \<^verbatim>\<open>POST /api/save\<close>,
  with the edits collected at the first trigger, to the requests sent so far.
\<close>

theorem share_pending_noop:
  "(hasSaveRequest s \<longrightarrow> share JSON_stringify d s = s)
   \<and> (\<not> hasSaveRequest s \<longrightarrow>
        share JSON_stringify d2 (share JSON_stringify d1 s) = share JSON_stringify d1 s
        \<and> filter is_fetch (effects (share JSON_stringify d2 (share JSON_stringify d1 s))) =
            filter is_fetch (effects s) @
              [Fetch ''/api/save''
                 \<lparr>http_method = ''POST'',
                  body = JSON_stringify (json_of_edits (persistContents d1)),
                  headers = [(''content-type'', ''application/json'')]\<rparr>])"
  by (simp add: share_def setSharing_def Let_def)

theorem share_pending_noop_witness:
  "share (\<lambda>v. ''[]'') (Element [] [] []) (initial\<lparr>hasSaveRequest := True\<rparr>) = initial\<lparr>hasSaveRequest := True\<rparr>
   \<and> share (\<lambda>v. ''[]'') (Element [] [] []) (share (\<lambda>v. ''[]'') (Element [] [] []) initial)
       = share (\<lambda>v. ''[]'') (Element [] [] []) initial
   \<and> filter is_fetch
       (effects (share (\<lambda>v. ''[]'') (Element [] [] []) (share (\<lambda>v. ''[]'') (Element [] [] []) initial))) =
       [Fetch ''/api/save''
          \<lparr>http_method = ''POST'', body = ''[]'',
           headers = [(''content-type'', ''application/json'')]\<rparr>]"
proof -
  have pending: "hasSaveRequest (initial\<lparr>hasSaveRequest := True\<rparr>)"
    by simp
  have idle: "\<not> hasSaveRequest initial" and none: "filter is_fetch (effects initial) = []"
    by (simp_all add: initial_def)
  from pending
    share_pending_noop [of "initial\<lparr>hasSaveRequest := True\<rparr>" "\<lambda>v. ''[]''" "Element [] [] []"]
  have first: "share (\<lambda>v. ''[]'') (Element [] [] []) (initial\<lparr>hasSaveRequest := True\<rparr>)
      = initial\<lparr>hasSaveRequest := True\<rparr>"
    by blast
  from idle
    share_pending_noop [of initial "\<lambda>v. ''[]''" "Element [] [] []" "Element [] [] []" "Element [] [] []"]
  have second: "share (\<lambda>v. ''[]'') (Element [] [] []) (share (\<lambda>v. ''[]'') (Element [] [] []) initial)
       = share (\<lambda>v. ''[]'') (Element [] [] []) initial
   \<and> filter is_fetch
       (effects (share (\<lambda>v. ''[]'') (Element [] [] []) (share (\<lambda>v. ''[]'') (Element [] [] []) initial))) =
       filter is_fetch (effects initial) @
       [Fetch ''/api/save''
          \<lparr>http_method = ''POST'', body = ''[]'',
           headers = [(''content-type'', ''application/json'')]\<rparr>]"
    by blast
  from first second show ?thesis
    unfolding none append_Nil by blast
qed

text \<open>
  Whenever the chain of \<^verbatim>\<open>share\<close> settles, its \<^verbatim>\<open>finally\<close> has reset the guard and the
  sharing flag. The chain stays pending exactly when \<^verbatim>\<open>fetch\<close> never settles, when the
  body of a 2xx reply is never read to its end, or when the body of a non-2xx reply
  cannot be read.
\<close>

lemma share_chain_settled_resets:
  "fst (share_chain JSON_parse fetched s) \<noteq> Pending \<Longrightarrow>
     \<not> hasSaveRequest (snd (share_chain JSON_parse fetched s))
   \<and> \<not> isSharingView (snd (share_chain JSON_parse fetched s))"
  by (cases fetched)
     (auto simp: share_chain_def setSharing_def setError_def setSnapshotId_def res_json_def
        reject_with_text_def res_text_def split: promise.splits option.splits sum.splits if_splits)

lemma share_chain_pending_iff:
  "fst (share_chain JSON_parse fetched s) = Pending \<longleftrightarrow>
     fetched = Pending
   \<or> (\<exists>res. fetched = Fulfilled res \<and>
         (if ok res then body_text res = Pending else \<forall>str. body_text res \<noteq> Fulfilled str))"
  by (cases fetched)
     (auto simp: share_chain_def setSharing_def setError_def setSnapshotId_def res_json_def
        reject_with_text_def res_text_def split: promise.splits option.splits sum.splits if_splits)

text \<open>
  C10 fails on the code: a save attempt that ends in a non-2xx reply whose body cannot
  be read. \<^verbatim>\<open>res.text()\<close> is rejected inside the async executor, the promise returned by
  the first \<^verbatim>\<open>then\<close> callback never settles, and \<^verbatim>\<open>catch\<close> and \<^verbatim>\<open>finally\<close> never run:
  the state stays as \<^verbatim>\<open>share\<close> left it, with \<^verbatim>\<open>hasSaveRequest\<close> true, and every later
  trigger of \<^verbatim>\<open>share\<close> is a no-op.
\<close>

theorem unreadable_error_body_keeps_guard:
  "share_chain (\<lambda>str. None) (Fulfilled \<lparr>ok = False, body_text = Rejected TypeError\<rparr>)
       (share (\<lambda>v. ''[]'') (Element [] [] []) initial)
     = (Pending, share (\<lambda>v. ''[]'') (Element [] [] []) initial)
   \<and> hasSaveRequest (share (\<lambda>v. ''[]'') (Element [] [] []) initial)
   \<and> share (\<lambda>v. ''[]'') (Element [] [] [])
        (snd (share_chain (\<lambda>str. None) (Fulfilled \<lparr>ok = False, body_text = Rejected TypeError\<rparr>)
            (share (\<lambda>v. ''[]'') (Element [] [] []) initial)))
       = share (\<lambda>v. ''[]'') (Element [] [] []) initial"
  by (simp add: share_chain_def share_def initial_def setSharing_def reject_with_text_def
      res_text_def Let_def)

end
